theory Spec2Isabelle
  imports Complex_Main "HOL-Library.Sublist"
begin

section \<open>Python values and exceptions\<close>

text \<open>
  The script \<^verbatim>\<open>prusacam.py\<close> is embedded function by function. Every exception the
  script can raise is a value of \<open>py_error\<close>; a function that may raise returns
  \<open>py_error + 'a\<close> with \<open>Inl\<close> for the exception.
\<close>

datatype py_error =
    KeyError | TypeError | ValueError | IndexError | UnboundLocalError
  | ConnectionError | FileExistsError | EOFError | JSONDecodeError | Cv2Error

text \<open>
  What \<^verbatim>\<open>json.loads\<close> returns. A JSON object is a dict; it is kept as an association
  list read with \<open>map_of\<close>.
\<close>

datatype json =
    JNull | JBool bool | JNum rat | JStr string
  | JArr "json list" | JObj "(string \<times> json) list"

text \<open>
  \<^verbatim>\<open>value[key]\<close> with a string key: a dict raises KeyError when the key is missing, every
  other JSON value raises TypeError.
\<close>

fun py_getitem :: "json \<Rightarrow> string \<Rightarrow> py_error + json" where
  "py_getitem (JObj kvs) k = (case map_of kvs k of None \<Rightarrow> Inl KeyError | Some v \<Rightarrow> Inr v)"
| "py_getitem v k = Inl TypeError"

text \<open>The expression \<^verbatim>\<open>status["printer"]["state"]\<close> of lines 264, 275 and 290.\<close>

definition printer_state :: "json \<Rightarrow> py_error + json" where
  "printer_state status =
     (case py_getitem status ''printer'' of
        Inl e \<Rightarrow> Inl e
      | Inr printer \<Rightarrow> py_getitem printer ''state'')"

section \<open>The image folder\<close>

text \<open>
  A directory entry is its full path (what \<^verbatim>\<open>str(img)\<close> gives for an entry of
  \<^verbatim>\<open>imgs_folder.iterdir()\<close>) and the time \<^verbatim>\<open>os.path.getctime\<close> reports. The folder is
  the list of its entries in the order \<^verbatim>\<open>iterdir\<close> yields them.
\<close>

record dirent =
  f_path :: string
  f_ctime :: int

type_synonym folder = "dirent list"

text \<open>\<^verbatim>\<open>os.remove(path)\<close>: the entry of that path is gone.\<close>

definition os_remove :: "string \<Rightarrow> folder \<Rightarrow> folder" where
  "os_remove p d = filter (\<lambda>f. f_path f \<noteq> p) d"

text \<open>
  \<^verbatim>\<open>cv2.imwrite(path, frame)\<close> as far as the folder listing sees it: a file of that path
  exists afterwards, stamped with the time of the write; an older file of the same path is
  replaced.
\<close>

definition imwrite :: "string \<Rightarrow> int \<Rightarrow> folder \<Rightarrow> folder" where
  "imwrite p t d = os_remove p d @ [\<lparr>f_path = p, f_ctime = t\<rparr>]"

section \<open>captureImage\<close>

datatype rotate_code = ROTATE_90_CLOCKWISE | ROTATE_180 | ROTATE_90_COUNTERCLOCKWISE

type_synonym frame = "nat list list"

text \<open>\<^verbatim>\<open>cv2.rotate\<close> on a frame given as its rows of pixels.\<close>

fun cv2_rotate :: "frame \<Rightarrow> rotate_code \<Rightarrow> frame" where
  "cv2_rotate m ROTATE_90_CLOCKWISE = map rev (transpose m)"
| "cv2_rotate m ROTATE_180 = rev (map rev m)"
| "cv2_rotate m ROTATE_90_COUNTERCLOCKWISE = rev (transpose m)"

text \<open>
  The handle \<^verbatim>\<open>cv2.VideoCapture(camera_id)\<close> yields, reduced to what captureImage asks
  of it: whether it opened, what \<^verbatim>\<open>cap.read()\<close> gives (\<open>None\<close> for \<^verbatim>\<open>ret == False\<close>) and
  whether \<^verbatim>\<open>cap.release()\<close> raises.
\<close>

record video_capture =
  isOpened :: bool
  read_frame :: "frame option"
  release_raises :: bool

datatype camera_id = CamIndex int | CamPath string

text \<open>
  One run of captureImage: what it returned or raised (\<open>Inr None\<close> is Python's None),
  whether \<^verbatim>\<open>cap.release()\<close> was called, and the file it wrote.
\<close>

record capture_run =
  cr_result :: "py_error + string option"
  cr_release_called :: bool
  cr_written :: "(string \<times> frame) option"

text \<open>
  Lines 102 to 109. The local \<^verbatim>\<open>img_path\<close> is bound only when a frame was read, so it is
  an option here and reading it unbound raises UnboundLocalError. \<^verbatim>\<open>return None\<close> sits
  inside the \<^verbatim>\<open>except\<close> block: it runs only when \<^verbatim>\<open>cap.release()\<close> raised.
\<close>

definition release_and_return ::
  "video_capture \<Rightarrow> string option \<Rightarrow> (string \<times> frame) option \<Rightarrow> capture_run" where
  "release_and_return cap img_path written =
     (if release_raises cap
      then \<lparr>cr_result = Inr None, cr_release_called = True, cr_written = written\<rparr>
      else (case img_path of
              None \<Rightarrow> \<lparr>cr_result = Inl UnboundLocalError, cr_release_called = True,
                        cr_written = written\<rparr>
            | Some p \<Rightarrow> \<lparr>cr_result = Inr (Some p), cr_release_called = True,
                          cr_written = written\<rparr>))"

text \<open>
  Lines 85 to 109. \<open>VideoCapture\<close> is \<^verbatim>\<open>cv2.VideoCapture\<close> as the machine answers it at
  the time of the call, \<open>now\<close> the text \<^verbatim>\<open>datetime.datetime.now().strftime(...)\<close> gives.
  The \<^verbatim>\<open>print\<close> of line 97 is at the level of \<^verbatim>\<open>if ret == True\<close>, not inside it: when no
  frame was read it reads the unbound \<^verbatim>\<open>img_path\<close> and raises before line 102.
\<close>

definition captureImage ::
  "(camera_id \<Rightarrow> video_capture) \<Rightarrow> string \<Rightarrow>
   camera_id \<Rightarrow> string \<Rightarrow> string \<Rightarrow> rotate_code option \<Rightarrow> capture_run" where
  "captureImage VideoCapture now camera_id fingerprint imgs_folder rotation =
     (let cap = VideoCapture camera_id in
      if isOpened cap then
        (case read_frame cap of
           Some frame \<Rightarrow>
             (let file_name = fingerprint @ ''_'' @ now @ ''.jpg'';
                  img_path = imgs_folder @ ''/'' @ file_name;
                  frame' = (case rotation of None \<Rightarrow> frame | Some r \<Rightarrow> cv2_rotate frame r)
              in release_and_return cap (Some img_path) (Some (img_path, frame')))
         | None \<Rightarrow>
             \<lparr>cr_result = Inl UnboundLocalError, cr_release_called = False, cr_written = None\<rparr>)
      else release_and_return cap None None)"

section \<open>deleteImages\<close>

text \<open>The slice \<^verbatim>\<open>xs[0:k]\<close>: a negative \<open>k\<close> counts from the end, and both ends are clamped.\<close>

definition py_slice_to :: "'a list \<Rightarrow> int \<Rightarrow> 'a list" where
  "py_slice_to xs k =
     (let n = int (length xs);
          stop = (if k < 0 then max (n + k) 0 else min k n)
      in take (nat stop) xs)"

text \<open>
  The test of line 161, \<^verbatim>\<open>fingerprint in str(img) and ".jpg" in str(img)\<close>: Python's
  \<^verbatim>\<open>in\<close> on strings is the contiguous-substring test, \<open>sublist\<close>.
\<close>

definition is_image_of :: "string \<Rightarrow> dirent \<Rightarrow> bool" where
  "is_image_of fingerprint img \<longleftrightarrow>
     sublist fingerprint (f_path img) \<and> sublist ''.jpg'' (f_path img)"

text \<open>
  Lines 157 to 165, on the listing \<open>d\<close> of \<^verbatim>\<open>imgs_folder\<close>; the result is the listing
  afterwards. \<^verbatim>\<open>sorted\<close> is stable, as \<open>sort_key\<close> is.
\<close>

definition deleteImages :: "folder \<Rightarrow> string \<Rightarrow> int \<Rightarrow> folder" where
  "deleteImages d fingerprint max_images =
     (let imgs = sort_key f_ctime d;
          filtered = filter (is_image_of fingerprint) imgs
      in if int (length filtered) > max_images
         then fold (\<lambda>img. os_remove (f_path img)) (py_slice_to filtered (-1 * max_images)) d
         else d)"

section \<open>The poll loop\<close>

record config =
  token :: string
  fingerprint :: string
  ip :: string
  pl_api_key :: string
  imgs_folder :: string
  image_rotation :: "rotate_code option"
  max_images :: int
  camera_id :: camera_id

text \<open>
  What the outside world answers during one pass of the loop: the outcome of
  \<^verbatim>\<open>getPrinterStatus\<close> (a raised exception, or the parsed body), the camera, the clock, and
  whether \<^verbatim>\<open>requests.put\<close> raises.
\<close>

record pass_env =
  env_status :: "py_error + json"
  env_VideoCapture :: "camera_id \<Rightarrow> video_capture"
  env_now :: string
  env_clock :: int
  env_put :: "py_error option"

datatype event = StatusQuery | Capture | Upload string | Sleep nat

record loop_state =
  printer_status :: json
  images :: folder
  trace :: "event list"

text \<open>
  The body both inner loops share (lines 270 to 279 and 285 to 294); they differ in the
  argument of \<^verbatim>\<open>time.sleep\<close> only. The result is \<open>Some e\<close> when \<open>e\<close> leaves the body
  uncaught, \<open>None\<close> when the body ends, by \<^verbatim>\<open>continue\<close> or after the sleep. Only the status
  query is inside \<^verbatim>\<open>try\<close>.
\<close>

definition loop_body ::
  "config \<Rightarrow> nat \<Rightarrow> pass_env \<Rightarrow> loop_state \<Rightarrow> py_error option \<times> loop_state" where
  "loop_body cfg secs env s =
     (let s1 = s\<lparr>trace := trace s @ [StatusQuery]\<rparr> in
      case env_status env of
        Inl e \<Rightarrow> (None, s1)
      | Inr status \<Rightarrow>
          (case printer_state status of
             Inl e \<Rightarrow> (Some e, s1)
           | Inr st \<Rightarrow>
               (let run = captureImage (env_VideoCapture env) (env_now env) (camera_id cfg)
                            (fingerprint cfg) (imgs_folder cfg) (image_rotation cfg);
                    s2 = s1\<lparr>printer_status := st,
                            images := (case cr_written run of
                                         None \<Rightarrow> images s1
                                       | Some (p, fr) \<Rightarrow> imwrite p (env_clock env) (images s1)),
                            trace := trace s1 @ [Capture]\<rparr>
                in case cr_result run of
                     Inl e \<Rightarrow> (Some e, s2)
                   | Inr None \<Rightarrow> (None, s2\<lparr>trace := trace s2 @ [Sleep secs]\<rparr>)
                   | Inr (Some img_path) \<Rightarrow>
                       (let s3 = s2\<lparr>trace := trace s2 @ [Upload img_path]\<rparr> in
                        case env_put env of
                          Some e \<Rightarrow> (Some e, s3)
                        | None \<Rightarrow> (None, s3\<lparr>trace := trace s3 @ [Sleep secs]\<rparr>)))))"

datatype outcome = Crashed py_error | Running

text \<open>
  Lines 266 to 294 over the answers of the world, one per pass. The outer
  \<^verbatim>\<open>while True\<close> only alternates between the two inner loops, so each pass runs the body
  of the loop whose condition the current \<^verbatim>\<open>printer_status\<close> satisfies. The loop never
  returns: \<open>Running\<close> says that it is still running when the given answers are used up.
\<close>

fun poll_loop :: "config \<Rightarrow> loop_state \<Rightarrow> pass_env list \<Rightarrow> outcome \<times> loop_state" where
  "poll_loop cfg s [] = (Running, s)"
| "poll_loop cfg s (env # envs) =
     (case loop_body cfg (if printer_status s = JStr ''PRINTING'' then 60 else 120) env s of
        (Some e, s') \<Rightarrow> (Crashed e, s')
      | (None, s') \<Rightarrow> poll_loop cfg s' envs)"

text \<open>
  Lines 262 to 294: the first status query, outside any \<^verbatim>\<open>try\<close>, then the loop. \<open>d\<close> is the
  image folder at this point, \<open>first\<close> the outcome of the first \<^verbatim>\<open>getPrinterStatus\<close>.
\<close>

definition monitor ::
  "config \<Rightarrow> folder \<Rightarrow> py_error + json \<Rightarrow> pass_env list \<Rightarrow> outcome \<times> folder \<times> event list" where
  "monitor cfg d first envs =
     (case first of
        Inl e \<Rightarrow> (Crashed e, d, [StatusQuery])
      | Inr status \<Rightarrow>
          (case printer_state status of
             Inl e \<Rightarrow> (Crashed e, d, [StatusQuery])
           | Inr st \<Rightarrow>
               (case poll_loop cfg \<lparr>printer_status = st, images = d, trace = [StatusQuery]\<rparr> envs of
                  (out, s) \<Rightarrow> (out, images s, trace s))))"

section \<open>Startup\<close>

subsection \<open>selectCamera\<close>

text \<open>\<^verbatim>\<open>str.strip\<close> and \<^verbatim>\<open>str.lower\<close> on ASCII text.\<close>

definition py_isspace :: "char \<Rightarrow> bool" where
  "py_isspace c \<longleftrightarrow> (let n = (of_char c :: nat) in (9 \<le> n \<and> n \<le> 13) \<or> (28 \<le> n \<and> n \<le> 32))"

definition py_strip :: "string \<Rightarrow> string" where
  "py_strip s = rev (dropWhile py_isspace (rev (dropWhile py_isspace s)))"

definition py_lower :: "string \<Rightarrow> string" where
  "py_lower s =
     map (\<lambda>c. let n = (of_char c :: nat) in if 65 \<le> n \<and> n \<le> 90 then char_of (n + 32) else c) s"

text \<open>
  The \<^verbatim>\<open>while valid is False\<close> loop of lines 128 to 136 over the lines the operator types.
  The result says whether the camera was confirmed, with the lines left. \<^verbatim>\<open>input\<close>
  raises EOFError when there is no line left.
\<close>

fun confirm :: "string list \<Rightarrow> py_error + bool \<times> string list" where
  "confirm [] = Inl EOFError"
| "confirm (inp # rest) =
     (if py_lower (py_strip inp) = ''y'' \<or> py_lower (py_strip inp) = ''yes'' then Inr (True, rest)
      else if py_lower (py_strip inp) = ''n'' \<or> py_lower (py_strip inp) = ''no''
      then Inr (False, rest)
      else confirm rest)"

text \<open>
  The \<^verbatim>\<open>for\<close> loop of lines 124 to 140 over the indices still to try; \<open>- 1\<close> is the value
  \<^verbatim>\<open>camera_id\<close> keeps when the loop ends without a confirmed camera.
\<close>

fun probe_cameras ::
  "(camera_id \<Rightarrow> video_capture) \<Rightarrow> nat list \<Rightarrow> string list \<Rightarrow> py_error + int" where
  "probe_cameras VideoCapture [] inputs = Inr (- 1)"
| "probe_cameras VideoCapture (i # is) inputs =
     (let cap = VideoCapture (CamIndex (int i)) in
      case (if read_frame cap \<noteq> None then confirm inputs else Inr (False, inputs)) of
        Inl e \<Rightarrow> Inl e
      | Inr (chosen, rest) \<Rightarrow>
          if release_raises cap then Inl Cv2Error
          else if chosen then Inr (int i)
          else probe_cameras VideoCapture is rest)"

definition selectCamera ::
  "(camera_id \<Rightarrow> video_capture) \<Rightarrow> string list \<Rightarrow> string \<Rightarrow> py_error + int" where
  "selectCamera VideoCapture inputs name = probe_cameras VideoCapture [0..<10] inputs"

subsection \<open>The rotation setting\<close>

definition possible_rot :: "rotate_code option list" where
  "possible_rot =
     [None, Some ROTATE_90_CLOCKWISE, Some ROTATE_180, Some ROTATE_90_COUNTERCLOCKWISE]"

text \<open>
  Python's floats are taken as exact rationals here, which they are not for numbers
  beyond \<open>2 ^ 53\<close>. \<^verbatim>\<open>int(x)\<close> of a float truncates toward zero.
\<close>

definition py_int :: "rat \<Rightarrow> int" where
  "py_int x = (if x < 0 then \<lceil>x\<rceil> else \<lfloor>x\<rfloor>)"

text \<open>\<^verbatim>\<open>xs[i]\<close> on a list: a negative index counts from the end, out of range raises.\<close>

definition py_list_item :: "'a list \<Rightarrow> int \<Rightarrow> py_error + 'a" where
  "py_list_item xs i =
     (if 0 \<le> i \<and> i < int (length xs) then Inr (xs ! nat i)
      else if i < 0 \<and> - int (length xs) \<le> i then Inr (xs ! nat (int (length xs) + i))
      else Inl IndexError)"

text \<open>
  Lines 188 to 192 and 229 to 233, on the number \<open>x\<close> that \<^verbatim>\<open>config["rotate"]\<close> or
  \<^verbatim>\<open>int(args.rotate)\<close> is.
\<close>

definition rotation_setting :: "rat \<Rightarrow> py_error + rotate_code option" where
  "rotation_setting x =
     (if of_int (py_int (x / 90)) = x / 90
      then (let rot_ind = py_int (x / 90) in py_list_item possible_rot rot_ind)
      else Inl TypeError)"

text \<open>
  Lines 226 to 237. \<open>rotate_arg\<close> is \<^verbatim>\<open>args.rotate\<close> after \<^verbatim>\<open>int(...)\<close>: \<open>None\<close> when it is
  text that \<^verbatim>\<open>int\<close> rejects with ValueError. For text that \<^verbatim>\<open>int\<close> accepts,
  \<^verbatim>\<open>float\<close> gives the same number and the test of line 228 holds.
\<close>

definition cli_rotation :: "int option \<Rightarrow> py_error + rotate_code option" where
  "cli_rotation rotate_arg =
     (case rotate_arg of
        None \<Rightarrow> Inl ValueError
      | Some r \<Rightarrow> rotation_setting (of_int r))"

text \<open>
  Lines 186 to 194 on the parsed configuration file. Only KeyError is caught. Dividing
  anything but a number by 90 raises TypeError; Python's booleans are numbers.
\<close>

definition json_rotation :: "json \<Rightarrow> py_error + rotate_code option" where
  "json_rotation config =
     (case py_getitem config ''rotate'' of
        Inl e \<Rightarrow> (if e = KeyError then Inr None else Inl e)
      | Inr (JNum x) \<Rightarrow> rotation_setting x
      | Inr (JBool b) \<Rightarrow> rotation_setting (if b then 1 else 0)
      | Inr v \<Rightarrow> Inl TypeError)"

text \<open>The clockwise angle, in degrees, by which the stored frame is turned.\<close>

fun clockwise_degrees :: "rotate_code option \<Rightarrow> int" where
  "clockwise_degrees None = 0"
| "clockwise_degrees (Some ROTATE_90_CLOCKWISE) = 90"
| "clockwise_degrees (Some ROTATE_180) = 180"
| "clockwise_degrees (Some ROTATE_90_COUNTERCLOCKWISE) = 270"

subsection \<open>The command-line path\<close>

text \<open>
  The parsed command line. An option that was not given is \<open>None\<close>; \<open>arg_rotate\<close> and
  \<open>arg_maximages\<close> hold the result of \<^verbatim>\<open>int(...)\<close> on the option, \<open>None\<close> when \<^verbatim>\<open>int\<close>
  raises ValueError.
\<close>

record args =
  arg_token :: string
  arg_name :: string
  arg_fingerprint :: "string option"
  arg_ip :: string
  arg_apikey :: string
  arg_directory :: "string option"
  arg_maximages :: "int option"
  arg_rotate :: "int option"
  arg_camera :: "string option"

text \<open>
  What the machine answers at startup: whether the image directory exists and is a file,
  the cameras, the operator's input lines, and \<^verbatim>\<open>CameraTester.verifyCamera\<close>, a module
  the script imports.
\<close>

record startup_env =
  dir_exists :: bool
  dir_is_file :: bool
  cameras :: "camera_id \<Rightarrow> video_capture"
  stdin :: "string list"
  verifyCamera :: "string \<Rightarrow> bool"

text \<open>Lines 223 to 258: the configuration, or the exception that ends the process.\<close>

definition main_cli :: "startup_env \<Rightarrow> args \<Rightarrow> py_error + config" where
  "main_cli w a =
     (case cli_rotation (arg_rotate a) of
        Inl e \<Rightarrow> Inl e
      | Inr rotation \<Rightarrow>
     (case arg_fingerprint a of
        None \<Rightarrow> Inl TypeError
      | Some fp \<Rightarrow>
     (if length fp < 16 then Inl ValueError else
     (case arg_directory a of
        None \<Rightarrow> Inl TypeError
      | Some folder \<Rightarrow>
     (case arg_maximages a of
        None \<Rightarrow> Inl ValueError
      | Some m \<Rightarrow>
     (if dir_exists w \<and> dir_is_file w then Inl FileExistsError else
     (case (case arg_camera a of
              None \<Rightarrow> map_sum id CamIndex (selectCamera (cameras w) (stdin w) (arg_name a))
            | Some c \<Rightarrow> if verifyCamera w c = False then Inl ConnectionError
                        else Inr (CamPath c)) of
        Inl e \<Rightarrow> Inl e
      | Inr camera \<Rightarrow>
          Inr \<lparr>token = arg_token a, fingerprint = fp, ip = arg_ip a,
               pl_api_key = arg_apikey a, imgs_folder = folder, image_rotation = rotation,
               max_images = m, camera_id = camera\<rparr>)))))))"

text \<open>
  The script on the command-line path: startup, then lines 262 to 294. No event is
  recorded when startup raises.
\<close>

definition main ::
  "startup_env \<Rightarrow> args \<Rightarrow> folder \<Rightarrow> py_error + json \<Rightarrow> pass_env list \<Rightarrow>
   outcome \<times> folder \<times> event list" where
  "main w a d first envs =
     (case main_cli w a of
        Inl e \<Rightarrow> (Crashed e, d, [])
      | Inr cfg \<Rightarrow> monitor cfg d first envs)"

section \<open>Concrete inputs\<close>

text \<open>Inputs on which the statements below are run.\<close>

definition fp0 :: string where
  "fp0 = ''0123456789abcdef''"

definition cfg0 :: config where
  "cfg0 = \<lparr>token = ''tok'', fingerprint = fp0, ip = ''10.0.0.2'', pl_api_key = ''key'',
           imgs_folder = ''/imgs'', image_rotation = None, max_images = 1,
           camera_id = CamIndex 0\<rparr>"

definition cam_ok :: video_capture where
  "cam_ok = \<lparr>isOpened = True, read_frame = Some [[1, 2], [3, 4]], release_raises = False\<rparr>"

definition cam_closed :: video_capture where
  "cam_closed = \<lparr>isOpened = False, read_frame = None, release_raises = False\<rparr>"

definition cam_no_frame :: video_capture where
  "cam_no_frame = \<lparr>isOpened = True, read_frame = None, release_raises = False\<rparr>"

definition status_body :: "string \<Rightarrow> json" where
  "status_body st = JObj [(''printer'', JObj [(''state'', JStr st)])]"

definition pass_with :: "video_capture \<Rightarrow> string \<Rightarrow> string \<Rightarrow> int \<Rightarrow> pass_env" where
  "pass_with c st now t =
     \<lparr>env_status = Inr (status_body st), env_VideoCapture = (\<lambda>_. c), env_now = now,
      env_clock = t, env_put = None\<rparr>"

definition pass_down :: pass_env where
  "pass_down = \<lparr>env_status = Inl ConnectionError, env_VideoCapture = (\<lambda>_. cam_ok),
                env_now = ''2024-01-01_00_00_00'', env_clock = 0, env_put = None\<rparr>"

definition started :: "string \<Rightarrow> loop_state" where
  "started st = \<lparr>printer_status = JStr st, images = [], trace = []\<rparr>"

definition w0 :: startup_env where
  "w0 = \<lparr>dir_exists = True, dir_is_file = False, cameras = (\<lambda>_. cam_closed), stdin = [],
          verifyCamera = (\<lambda>_. True)\<rparr>"

definition a0 :: args where
  "a0 = \<lparr>arg_token = ''tok'', arg_name = ''printer'', arg_fingerprint = Some fp0,
          arg_ip = ''10.0.0.2'', arg_apikey = ''key'', arg_directory = Some ''/imgs'',
          arg_maximages = Some 500, arg_rotate = Some 0, arg_camera = None\<rparr>"

section \<open>The poll loop: status queries\<close>

lemma loop_body_query_fails:
  "isl (env_status env) \<Longrightarrow>
   loop_body cfg secs env s = (None, s\<lparr>trace := trace s @ [StatusQuery]\<rparr>)"
  by (cases "env_status env") (simp_all add: loop_body_def)

text \<open>
  C9. Whatever \<^verbatim>\<open>getPrinterStatus\<close> raises inside the loop is caught: after any number of
  failed queries in a row the loop has issued that many queries and nothing else (no
  capture, no upload, no sleep), its state is otherwise unchanged, it has not crashed, and
  it goes on with the next query. The number of failures is not bounded.
\<close>

theorem failed_queries_retried_at_once:
  "\<forall>env \<in> set fails. isl (env_status env) \<Longrightarrow>
   poll_loop cfg s (fails @ envs) =
   poll_loop cfg (s\<lparr>trace := trace s @ replicate (length fails) StatusQuery\<rparr>) envs"
proof (induction fails arbitrary: s)
  case Nil
  show ?case by simp
next
  case (Cons env fails)
  have "poll_loop cfg s ((env # fails) @ envs) =
        poll_loop cfg (s\<lparr>trace := trace s @ [StatusQuery]\<rparr>) (fails @ envs)"
    using Cons.prems by (simp add: loop_body_query_fails)
  also have "\<dots> = poll_loop cfg
      (s\<lparr>trace := trace s @ [StatusQuery]\<rparr>
        \<lparr>trace := trace (s\<lparr>trace := trace s @ [StatusQuery]\<rparr>)
                    @ replicate (length fails) StatusQuery\<rparr>) envs"
    using Cons.prems by (intro Cons.IH) simp
  finally show ?case by (simp add: replicate_append_same)
qed

text \<open>Three failed queries in a row while printing: three queries, no sleep, still running.\<close>

theorem failed_queries_retried_at_once_witness:
  "isl (env_status pass_down) \<and>
   poll_loop cfg0 (started ''PRINTING'') ([pass_down, pass_down, pass_down] @ []) =
   (Running, \<lparr>printer_status = JStr ''PRINTING'', images = [],
              trace = [StatusQuery, StatusQuery, StatusQuery]\<rparr>)"
  using failed_queries_retried_at_once
          [of "[pass_down, pass_down, pass_down]" cfg0 "started ''PRINTING''" "[]"]
  by (simp add: pass_down_def started_def)

text \<open>
  C10. When a status query returns a JSON object without the key \<^verbatim>\<open>printer\<close>, or whose
  \<^verbatim>\<open>printer\<close> object has no key \<^verbatim>\<open>state\<close>, the KeyError of the field access is outside the
  \<^verbatim>\<open>try\<close> and ends the loop. The query before the loop is not protected either: such a
  body, or any exception of the query itself, ends the process there.
\<close>

theorem missing_state_key_ends_the_loop:
  "map_of kvs ''printer'' = None \<or>
     (map_of kvs ''printer'' = Some (JObj pkvs) \<and> map_of pkvs ''state'' = None) \<Longrightarrow>
   env_status env = Inr (JObj kvs) \<Longrightarrow>
   poll_loop cfg s (env # envs) = (Crashed KeyError, s\<lparr>trace := trace s @ [StatusQuery]\<rparr>) \<and>
   monitor cfg d (Inr (JObj kvs)) envs = (Crashed KeyError, d, [StatusQuery]) \<and>
   monitor cfg d (Inl e) envs = (Crashed e, d, [StatusQuery])"
  by (auto simp: loop_body_def printer_state_def monitor_def)

text \<open>A body whose \<^verbatim>\<open>printer\<close> object has no \<^verbatim>\<open>state\<close>, in the loop and before it.\<close>

theorem missing_state_key_ends_the_loop_witness:
  "(map_of [(''printer'', JObj [(''telemetry'', JNull)])] ''printer'' = None \<or>
     (map_of [(''printer'', JObj [(''telemetry'', JNull)])] ''printer''
        = Some (JObj [(''telemetry'', JNull)]) \<and>
      map_of [(''telemetry'', JNull)] ''state'' = None)) \<and>
   env_status (pass_down\<lparr>env_status := Inr (JObj [(''printer'', JObj [(''telemetry'', JNull)])])\<rparr>)
     = Inr (JObj [(''printer'', JObj [(''telemetry'', JNull)])]) \<and>
   poll_loop cfg0 (started ''IDLE'')
     (pass_down\<lparr>env_status := Inr (JObj [(''printer'', JObj [(''telemetry'', JNull)])])\<rparr>
      # [pass_down])
     = (Crashed KeyError, (started ''IDLE'')\<lparr>trace := trace (started ''IDLE'') @ [StatusQuery]\<rparr>) \<and>
   monitor cfg0 [] (Inr (JObj [(''printer'', JObj [(''telemetry'', JNull)])])) [pass_down]
     = (Crashed KeyError, [], [StatusQuery]) \<and>
   monitor cfg0 [] (Inl ConnectionError) [pass_down]
     = (Crashed ConnectionError, [], [StatusQuery])"
  using missing_state_key_ends_the_loop
          [of "[(''printer'', JObj [(''telemetry'', JNull)])]" "[(''telemetry'', JNull)]"
              "pass_down\<lparr>env_status := Inr (JObj [(''printer'', JObj [(''telemetry'', JNull)])])\<rparr>"
              cfg0 "started ''IDLE''" "[pass_down]" "[]" ConnectionError]
  by simp

section \<open>captureImage: the failure paths\<close>

text \<open>
  captureImage on each of its three paths. A frame was read: the path of the new file is
  returned, unless \<^verbatim>\<open>release\<close> raises. The source did not open: None is returned only when
  \<^verbatim>\<open>release\<close> raises. The source opened and gave no frame: the exception of line 97.
\<close>

lemma captureImage_frame_read:
  assumes "isOpened (VideoCapture camera)" "read_frame (VideoCapture camera) = Some frame"
  shows "cr_result (captureImage VideoCapture now camera fp folder rotation) =
           (if release_raises (VideoCapture camera) then Inr None
            else Inr (Some (folder @ ''/'' @ fp @ ''_'' @ now @ ''.jpg'')))"
    and "cr_release_called (captureImage VideoCapture now camera fp folder rotation)"
  using assms by (simp_all add: captureImage_def release_and_return_def Let_def)

lemma captureImage_not_opened:
  assumes "\<not> isOpened (VideoCapture camera)"
  shows "cr_result (captureImage VideoCapture now camera fp folder rotation) =
           (if release_raises (VideoCapture camera) then Inr None else Inl UnboundLocalError)"
    and "cr_release_called (captureImage VideoCapture now camera fp folder rotation)"
  using assms by (simp_all add: captureImage_def release_and_return_def Let_def)

lemma captureImage_no_frame:
  assumes "isOpened (VideoCapture camera)" "read_frame (VideoCapture camera) = None"
  shows "captureImage VideoCapture now camera fp folder rotation =
           \<lparr>cr_result = Inl UnboundLocalError, cr_release_called = False, cr_written = None\<rparr>"
  using assms by (simp add: captureImage_def Let_def)

text \<open>
  C2. The claim is that captureImage returns None when the source does not open or no
  frame is read, and that the loop then skips the upload and sleeps. On a source that does
  not open, and whose \<^verbatim>\<open>release\<close> does not raise, line 109 reads the unbound \<^verbatim>\<open>img_path\<close>;
  on a source that opens and gives no frame, line 97 does. Both raise UnboundLocalError,
  and the loop, which calls captureImage outside its \<^verbatim>\<open>try\<close>, ends with it.
\<close>

theorem capture_failure_raises:
  "cr_result (captureImage (\<lambda>_. cam_closed) ''2024-01-01_00_00_00'' (CamIndex 0) fp0 ''/imgs'' None)
     = Inl UnboundLocalError \<and>
   cr_result (captureImage (\<lambda>_. cam_no_frame) ''2024-01-01_00_00_00'' (CamIndex 0) fp0 ''/imgs'' None)
     = Inl UnboundLocalError \<and>
   poll_loop cfg0 (started ''PRINTING'') [pass_with cam_closed ''PRINTING'' ''2024-01-01_00_00_00'' 1]
     = (Crashed UnboundLocalError,
        \<lparr>printer_status = JStr ''PRINTING'', images = [], trace = [StatusQuery, Capture]\<rparr>)"
  by (simp add: captureImage_def release_and_return_def cam_closed_def cam_no_frame_def
        loop_body_def pass_with_def status_body_def printer_state_def started_def cfg0_def Let_def)

text \<open>
  C3. The claim is that the handle is released on every exit path. On a source that opens
  and gives no frame, captureImage leaves by the exception of line 97, before the
  \<^verbatim>\<open>cap.release()\<close> of line 103 is reached.
\<close>

theorem no_frame_skips_release:
  "captureImage (\<lambda>_. cam_no_frame) ''2024-01-01_00_00_00'' (CamIndex 0) fp0 ''/imgs'' None
     = \<lparr>cr_result = Inl UnboundLocalError, cr_release_called = False, cr_written = None\<rparr>"
  by (simp add: captureImage_def cam_no_frame_def Let_def)

section \<open>The poll loop: the sleep\<close>

text \<open>
  C7, as stated, fails: the printer was printing, the query of this pass reads \<^verbatim>\<open>IDLE\<close>,
  and the sleep that follows is 60, not 120.
\<close>

theorem sleep_is_that_of_the_old_state:
  "poll_loop cfg0 (started ''PRINTING'') [pass_with cam_ok ''IDLE'' ''2024-01-01_00_00_00'' 1]
     = (Running,
        \<lparr>printer_status = JStr ''IDLE'',
         images = [\<lparr>f_path = ''/imgs/0123456789abcdef_2024-01-01_00_00_00.jpg'', f_ctime = 1\<rparr>],
         trace = [StatusQuery, Capture,
                  Upload ''/imgs/0123456789abcdef_2024-01-01_00_00_00.jpg'', Sleep 60]\<rparr>)"
  by code_simp

text \<open>
  C7, amended. In a pass whose status query, field access, capture and upload all go
  through, the loop queries, captures, uploads when there is an image, and then sleeps 60
  when \<^verbatim>\<open>printer_status\<close> was \<^verbatim>\<open>PRINTING\<close> before this pass's query (the state the previous
  query read), and 120 otherwise. The state this pass reads sets the sleep of the next
  pass.
\<close>

theorem sleep_set_by_state_before_query:
  assumes "env_status env = Inr body" and "printer_state body = Inr st"
    and "cr_result (captureImage (env_VideoCapture env) (env_now env) (camera_id cfg)
           (fingerprint cfg) (imgs_folder cfg) (image_rotation cfg)) = Inr r"
    and "r \<noteq> None \<longrightarrow> env_put env = None"
  shows "fst (poll_loop cfg s [env]) = Running \<and>
         printer_status (snd (poll_loop cfg s [env])) = st \<and>
         trace (snd (poll_loop cfg s [env])) =
           trace s @ [StatusQuery, Capture] @ (case r of None \<Rightarrow> [] | Some p \<Rightarrow> [Upload p])
             @ [Sleep (if printer_status s = JStr ''PRINTING'' then 60 else 120)]"
  using assms by (cases r) (simp_all add: loop_body_def Let_def)

text \<open>
  Printing was not going on, the query of this pass reads \<^verbatim>\<open>PRINTING\<close>: the sleep is
  still 120.
\<close>

theorem sleep_set_by_state_before_query_witness:
  "env_status (pass_with cam_ok ''PRINTING'' ''2024-01-01_00_02_00'' 2)
     = Inr (status_body ''PRINTING'') \<and>
   printer_state (status_body ''PRINTING'') = Inr (JStr ''PRINTING'') \<and>
   env_put (pass_with cam_ok ''PRINTING'' ''2024-01-01_00_02_00'' 2) = None \<and>
   fst (poll_loop cfg0 (started ''IDLE'') [pass_with cam_ok ''PRINTING'' ''2024-01-01_00_02_00'' 2])
     = Running \<and>
   printer_status (snd (poll_loop cfg0 (started ''IDLE'')
       [pass_with cam_ok ''PRINTING'' ''2024-01-01_00_02_00'' 2])) = JStr ''PRINTING'' \<and>
   trace (snd (poll_loop cfg0 (started ''IDLE'')
       [pass_with cam_ok ''PRINTING'' ''2024-01-01_00_02_00'' 2]))
     = [StatusQuery, Capture, Upload ''/imgs/0123456789abcdef_2024-01-01_00_02_00.jpg'', Sleep 120]"
proof -
  let ?env = "pass_with cam_ok ''PRINTING'' ''2024-01-01_00_02_00'' 2"
  have h1: "env_status ?env = Inr (status_body ''PRINTING'')"
    by (simp add: pass_with_def)
  have h2: "printer_state (status_body ''PRINTING'') = Inr (JStr ''PRINTING'')"
    by (simp add: printer_state_def status_body_def)
  have h3: "cr_result (captureImage (env_VideoCapture ?env) (env_now ?env) (camera_id cfg0)
              (fingerprint cfg0) (imgs_folder cfg0) (image_rotation cfg0))
            = Inr (Some ''/imgs/0123456789abcdef_2024-01-01_00_02_00.jpg'')"
    by (simp add: pass_with_def captureImage_def release_and_return_def cam_ok_def cfg0_def
          fp0_def Let_def)
  have h4: "env_put ?env = None"
    by (simp add: pass_with_def)
  from sleep_set_by_state_before_query [OF h1 h2 h3, of "started ''IDLE''"] h1 h2 h4
  show ?thesis by (simp add: started_def)
qed

section \<open>The retention sweep\<close>

subsection \<open>What deleteImages removes\<close>

lemma fold_os_remove:
  "fold (\<lambda>img. os_remove (f_path img)) vs d = filter (\<lambda>f. f_path f \<notin> f_path ` set vs) d"
proof (induction vs arbitrary: d)
  case Nil
  show ?case by simp
next
  case (Cons v vs)
  have "fold (\<lambda>img. os_remove (f_path img)) (v # vs) d =
        filter (\<lambda>f. f_path f \<notin> f_path ` set vs) (os_remove (f_path v) d)"
    by (simp add: Cons.IH)
  also have "\<dots> = filter (\<lambda>f. f_path f \<notin> f_path ` set (v # vs)) d"
    by (auto simp: os_remove_def intro: filter_cong)
  finally show ?case .
qed

lemma set_py_slice_to: "set (py_slice_to xs k) \<subseteq> set xs"
  by (auto simp: py_slice_to_def Let_def dest: in_set_takeD)

lemma py_slice_to_neg:
  "0 < m \<Longrightarrow> m \<le> int (length xs) \<Longrightarrow> py_slice_to xs (- m) = take (length xs - nat m) xs"
  by (simp add: py_slice_to_def Let_def nat_diff_distrib')

lemma py_slice_to_zero: "py_slice_to xs 0 = []"
  by (simp add: py_slice_to_def)

lemma keep_filter_commute:
  assumes "set vs \<subseteq> {f. is_image_of fp f}"
  shows "filter (\<lambda>f. \<not> is_image_of fp f) (filter (\<lambda>f. f_path f \<notin> f_path ` set vs) d)
         = filter (\<lambda>f. \<not> is_image_of fp f) d"
proof -
  have "f_path f \<notin> f_path ` set vs" if "\<not> is_image_of fp f" for f
  proof
    assume "f_path f \<in> f_path ` set vs"
    then obtain v where v: "v \<in> set vs" "f_path f = f_path v"
      by blast
    from v(1) assms have "is_image_of fp v"
      by blast
    with v(2) have "is_image_of fp f"
      by (simp add: is_image_of_def)
    with that show False
      by simp
  qed
  then show ?thesis
    by (auto simp: filter_filter intro: filter_cong)
qed

lemma distinct_paths_sorted:
  "distinct (map f_path d) \<Longrightarrow> distinct (map f_path (filter P (sort_key f_ctime d)))"
  by (rule distinct_map_filter) (simp add: distinct_map)

lemma drop_survives:
  assumes "distinct (map f_path xs)"
  shows "filter (\<lambda>f. f_path f \<notin> f_path ` set (take k xs)) xs = drop k xs"
proof -
  from assms have "distinct (map f_path (take k xs) @ map f_path (drop k xs))"
    by (metis append_take_drop_id map_append)
  then have disj: "f_path ` set (take k xs) \<inter> f_path ` set (drop k xs) = {}"
    by simp
  have a: "filter (\<lambda>f. f_path f \<notin> f_path ` set (take k xs)) (take k xs) = []"
    by (simp add: filter_empty_conv)
  have b: "filter (\<lambda>f. f_path f \<notin> f_path ` set (take k xs)) (drop k xs) = drop k xs"
    using disj by (auto simp: filter_id_conv)
  have "filter (\<lambda>f. f_path f \<notin> f_path ` set (take k xs)) (take k xs @ drop k xs) = drop k xs"
    unfolding filter_append a b by simp
  then show ?thesis
    by simp
qed

text \<open>
  With a cap of at least one and more matching files than the cap, in a folder whose
  paths are distinct, the sweep does what its comment says: the matching files left, in
  order of their time, are the last \<open>m\<close> of the sorted matching files; there are \<open>m\<close> of
  them; and no removed file is younger than a kept one.
\<close>

lemma deleteImages_keeps_newest:
  assumes dist: "distinct (map f_path d)"
    and m: "1 \<le> m" "m < int (length (filter (is_image_of fp) d))"
  shows "filter (is_image_of fp) (sort_key f_ctime (deleteImages d fp m))
           = drop (length (filter (is_image_of fp) d) - nat m)
               (filter (is_image_of fp) (sort_key f_ctime d))"
    and "length (filter (is_image_of fp) (deleteImages d fp m)) = nat m"
    and "\<forall>gone \<in> set (filter (is_image_of fp) d) - set (deleteImages d fp m).
         \<forall>kept \<in> set (filter (is_image_of fp) (deleteImages d fp m)).
           f_ctime gone \<le> f_ctime kept"
proof -
  let ?P = "is_image_of fp"
  let ?F = "filter ?P (sort_key f_ctime d)"
  let ?k = "length (filter ?P d) - nat m"
  have len: "length ?F = length (filter ?P d)"
    by (simp add: filter_sort)
  have del: "deleteImages d fp m = filter (\<lambda>f. f_path f \<notin> f_path ` set (take ?k ?F)) d"
    using m by (simp add: deleteImages_def Let_def fold_os_remove py_slice_to_neg len)
  have "filter ?P (sort_key f_ctime (deleteImages d fp m))
          = filter (\<lambda>f. f_path f \<notin> f_path ` set (take ?k ?F)) ?F"
    unfolding del by (simp add: filter_sort [symmetric] filter_filter conj_commute)
  also have "\<dots> = drop ?k ?F"
    by (rule drop_survives) (rule distinct_paths_sorted [OF dist])
  finally show kept: "filter ?P (sort_key f_ctime (deleteImages d fp m)) = drop ?k ?F" .
  have "length (filter ?P (deleteImages d fp m))
          = length (filter ?P (sort_key f_ctime (deleteImages d fp m)))"
    by (simp add: filter_sort)
  also have "\<dots> = nat m"
    using m by (simp add: kept len)
  finally show "length (filter ?P (deleteImages d fp m)) = nat m" .
  have sorted: "sorted (map f_ctime (take ?k ?F @ drop ?k ?F))"
    by (simp add: sorted_filter)
  have order: "f_ctime x \<le> f_ctime y" if "x \<in> set (take ?k ?F)" "y \<in> set (drop ?k ?F)" for x y
    using sorted that unfolding map_append sorted_append by auto
  have kept_set: "set (filter ?P (deleteImages d fp m)) = set (drop ?k ?F)"
    using arg_cong [OF kept, of set] by (simp add: filter_sort)
  have gone_set: "set (filter ?P d) - set (deleteImages d fp m) \<subseteq> set (take ?k ?F)"
  proof
    fix x assume x: "x \<in> set (filter ?P d) - set (deleteImages d fp m)"
    then have "x \<in> set ?F" and "x \<notin> set (filter ?P (deleteImages d fp m))"
      by auto
    then have "x \<in> set (take ?k ?F @ drop ?k ?F)" and "x \<notin> set (drop ?k ?F)"
      unfolding kept_set by simp_all
    then show "x \<in> set (take ?k ?F)"
      unfolding set_append by blast
  qed
  show "\<forall>gone \<in> set (filter ?P d) - set (deleteImages d fp m).
        \<forall>kept \<in> set (filter ?P (deleteImages d fp m)). f_ctime gone \<le> f_ctime kept"
    using order gone_set kept_set by blast
qed

text \<open>With a cap of zero the slice \<^verbatim>\<open>filtered[0:-0]\<close> is empty: nothing is removed.\<close>

lemma deleteImages_cap_zero: "deleteImages d fp 0 = d"
  by (simp add: deleteImages_def Let_def py_slice_to_zero)

text \<open>
  C5. The claim is that with \<open>N\<close> matching files and a cap \<open>M < N\<close> the sweep leaves
  exactly \<open>M\<close> of them. With one matching file and a cap of zero the sweep leaves the
  file in place: one matching file is left, not none.
\<close>

theorem cap_zero_deletes_nothing:
  "is_image_of fp0 \<lparr>f_path = ''/imgs/0123456789abcdef_2024-01-01_00_00_00.jpg'', f_ctime = 1\<rparr> \<and>
   deleteImages [\<lparr>f_path = ''/imgs/0123456789abcdef_2024-01-01_00_00_00.jpg'', f_ctime = 1\<rparr>] fp0 0
     = [\<lparr>f_path = ''/imgs/0123456789abcdef_2024-01-01_00_00_00.jpg'', f_ctime = 1\<rparr>]"
  by code_simp

text \<open>
  C6, as stated, fails: the folder holds an older image of the fingerprint
  \<^verbatim>\<open>0123456789abcdefX\<close> and a newer one of \<^verbatim>\<open>0123456789abcdef\<close>. The sweep for the
  second, with a cap of one, counts both and removes the image of the first.
\<close>

theorem sweep_takes_longer_fingerprint:
  "deleteImages
     [\<lparr>f_path = ''/imgs/0123456789abcdefX_2024-01-01_00_00_00.jpg'', f_ctime = 1\<rparr>,
      \<lparr>f_path = ''/imgs/0123456789abcdef_2024-01-01_00_05_00.jpg'', f_ctime = 2\<rparr>]
     ''0123456789abcdef'' 1
   = [\<lparr>f_path = ''/imgs/0123456789abcdef_2024-01-01_00_05_00.jpg'', f_ctime = 2\<rparr>]"
  by code_simp

text \<open>
  C6, amended. The sweep for a fingerprint neither removes nor counts a file whose path
  does not contain that fingerprint (or does not contain \<^verbatim>\<open>.jpg\<close>): those files are all
  still there afterwards, in the same order, and what is left of the matching files is
  what the sweep leaves of a folder that holds the matching files alone. A file of another
  fingerprint is safe when its path does not contain the swept fingerprint.
\<close>

theorem sweep_sees_only_its_own_matches:
  "filter (\<lambda>f. \<not> is_image_of fp f) (deleteImages d fp m) = filter (\<lambda>f. \<not> is_image_of fp f) d \<and>
   filter (is_image_of fp) (deleteImages d fp m) = deleteImages (filter (is_image_of fp) d) fp m"
proof
  let ?F = "filter (is_image_of fp) (sort_key f_ctime d)"
  have sub: "set (py_slice_to ?F k) \<subseteq> {f. is_image_of fp f}" for k
    using set_py_slice_to [of ?F k] by auto
  show "filter (\<lambda>f. \<not> is_image_of fp f) (deleteImages d fp m) = filter (\<lambda>f. \<not> is_image_of fp f) d"
    using keep_filter_commute [OF sub]
    by (simp add: deleteImages_def Let_def fold_os_remove)
  have same: "filter (is_image_of fp) (sort_key f_ctime (filter (is_image_of fp) d)) = ?F"
    by (simp add: filter_sort)
  show "filter (is_image_of fp) (deleteImages d fp m) = deleteImages (filter (is_image_of fp) d) fp m"
    unfolding deleteImages_def Let_def same
    by (auto simp: fold_os_remove filter_filter intro: filter_cong)
qed

subsection \<open>The loop and the sweep\<close>

lemma imwrite_paths: "f_path ` set (imwrite p t d) = insert p (f_path ` set d)"
  by (auto simp: imwrite_def os_remove_def)

lemma loop_body_keeps_paths:
  "f_path ` set (images s) \<subseteq> f_path ` set (images (snd (loop_body cfg secs env s)))"
  by (auto simp: loop_body_def Let_def imwrite_paths split: sum.splits option.splits prod.splits)

text \<open>No pass of the loop removes a file: lines 266 to 294 do not call deleteImages.\<close>

lemma poll_loop_keeps_paths:
  "f_path ` set (images s) \<subseteq> f_path ` set (images (snd (poll_loop cfg s envs)))"
proof (induction envs arbitrary: s)
  case Nil
  show ?case by simp
next
  case (Cons env envs)
  let ?secs = "if printer_status s = JStr ''PRINTING'' then 60 else 120 :: nat"
  obtain r s' where body: "loop_body cfg ?secs env s = (r, s')"
    by (cases "loop_body cfg ?secs env s")
  have step: "f_path ` set (images s) \<subseteq> f_path ` set (images s')"
    using loop_body_keeps_paths [of s cfg ?secs env] body by simp
  show ?case
  proof (cases r)
    case None
    with body have "poll_loop cfg s (env # envs) = poll_loop cfg s' envs"
      by simp
    with step Cons.IH [of s'] show ?thesis
      by auto
  next
    case (Some e)
    with body have "poll_loop cfg s (env # envs) = (Crashed e, s')"
      by simp
    with step show ?thesis
      by simp
  qed
qed

text \<open>
  C1. The claim is that every pass sweeps after the upload, so that the images of this
  fingerprint never outnumber the cap. With a cap of one, two passes that each capture and
  upload an image leave two images of the fingerprint in the folder; between upload and
  sleep nothing happens.
\<close>

theorem loop_never_sweeps:
  "poll_loop cfg0 (started ''PRINTING'')
     [pass_with cam_ok ''PRINTING'' ''2024-01-01_00_00_00'' 1,
      pass_with cam_ok ''PRINTING'' ''2024-01-01_00_01_00'' 2]
   = (Running,
      \<lparr>printer_status = JStr ''PRINTING'',
       images = [\<lparr>f_path = ''/imgs/0123456789abcdef_2024-01-01_00_00_00.jpg'', f_ctime = 1\<rparr>,
                 \<lparr>f_path = ''/imgs/0123456789abcdef_2024-01-01_00_01_00.jpg'', f_ctime = 2\<rparr>],
       trace = [StatusQuery, Capture, Upload ''/imgs/0123456789abcdef_2024-01-01_00_00_00.jpg'',
                Sleep 60,
                StatusQuery, Capture, Upload ''/imgs/0123456789abcdef_2024-01-01_00_01_00.jpg'',
                Sleep 60]\<rparr>) \<and>
   length (filter (is_image_of (fingerprint cfg0))
     [\<lparr>f_path = ''/imgs/0123456789abcdef_2024-01-01_00_00_00.jpg'', f_ctime = 1\<rparr>,
      \<lparr>f_path = ''/imgs/0123456789abcdef_2024-01-01_00_01_00.jpg'', f_ctime = 2\<rparr>]) = 2 \<and>
   max_images cfg0 = 1"
  by code_simp

section \<open>Startup: what is accepted\<close>

subsection \<open>Camera selection\<close>

lemma probe_cameras_range:
  "probe_cameras VideoCapture is inputs = Inr c \<Longrightarrow> c = - 1 \<or> nat c \<in> set is \<and> 0 \<le> c"
  by (induction "is" arbitrary: inputs)
     (auto simp: Let_def split: if_splits sum.splits prod.splits)

text \<open>Startup passes on whatever number selectCamera returns, \<open>- 1\<close> included.\<close>

lemma main_cli_takes_any_camera_number:
  assumes "selectCamera (cameras w) (stdin w) (arg_name a) = Inr c"
    and "arg_camera a = None" and "main_cli w a = Inr cfg"
  shows "camera_id cfg = CamIndex c"
  using assms
  by (auto simp: main_cli_def split: sum.splits option.splits if_splits)

text \<open>
  C4. The claim is that when no camera is confirmed selectCamera returns its sentinel and
  the process aborts before the loop. selectCamera returns \<open>- 1\<close>, both when no index
  gives a frame and when the operator declines all ten; startup does not test the value,
  the first status query is made, and the loop runs with camera \<open>- 1\<close>.
\<close>

theorem unconfirmed_camera_enters_loop:
  "selectCamera (\<lambda>_. cam_closed) [] ''printer'' = Inr (- 1) \<and>
   selectCamera (\<lambda>_. cam_ok) (replicate 10 ''n'') ''printer'' = Inr (- 1) \<and>
   main_cli w0 a0 =
     Inr \<lparr>token = ''tok'', fingerprint = ''0123456789abcdef'', ip = ''10.0.0.2'',
          pl_api_key = ''key'', imgs_folder = ''/imgs'', image_rotation = None,
          max_images = 500, camera_id = CamIndex (- 1)\<rparr> \<and>
   main w0 a0 [] (Inr (status_body ''IDLE'')) [pass_with cam_ok ''IDLE'' ''2024-01-01_00_00_00'' 1]
     = (Running,
        [\<lparr>f_path = ''/imgs/0123456789abcdef_2024-01-01_00_00_00.jpg'', f_ctime = 1\<rparr>],
        [StatusQuery, StatusQuery, Capture,
         Upload ''/imgs/0123456789abcdef_2024-01-01_00_00_00.jpg'', Sleep 120])"
  by code_simp

subsection \<open>The rotation setting\<close>

lemma py_int_of_int: "py_int (of_int k) = k"
  by (simp add: py_int_def)

lemma whole_quarter_turns:
  "of_int (py_int (x / 90)) = x / 90 \<longleftrightarrow> (\<exists>k. x = of_int (90 * k))"
proof
  assume h: "of_int (py_int (x / 90)) = x / 90"
  have "x = of_int (90 * py_int (x / 90))"
    using h by simp
  then show "\<exists>k. x = of_int (90 * k)" ..
next
  assume "\<exists>k. x = of_int (90 * k)"
  then obtain k where "x = of_int (90 * k)" ..
  then have "x / 90 = of_int k"
    by simp
  then show "of_int (py_int (x / 90)) = x / 90"
    by (simp add: py_int_of_int)
qed

lemma rotation_setting_multiple:
  "rotation_setting (of_int (90 * k)) = py_list_item possible_rot k"
proof -
  have "(of_int (90 * k) :: rat) / 90 = of_int k"
    by simp
  then show ?thesis
    by (simp add: rotation_setting_def py_int_of_int)
qed

text \<open>A value that is not a multiple of 90 raises the TypeError of lines 192 and 233.\<close>

lemma rotation_setting_not_multiple:
  "\<not> 90 dvd r \<Longrightarrow> rotation_setting (of_int r) = Inl TypeError"
proof -
  assume nd: "\<not> 90 dvd r"
  have "\<not> (\<exists>k. (of_int r :: rat) = of_int (90 * k))"
  proof
    assume "\<exists>k. (of_int r :: rat) = of_int (90 * k)"
    then obtain k where "(of_int r :: rat) = of_int (90 * k)" ..
    then have "r = 90 * k"
      by (simp only: of_int_eq_iff)
    with nd show False by simp
  qed
  then have "of_int (py_int (of_int r / 90)) \<noteq> (of_int r :: rat) / 90"
    unfolding whole_quarter_turns .
  then show ?thesis
    unfolding rotation_setting_def by (simp only: if_False)
qed

text \<open>
  The multiples of 90 from \<open>- 360\<close> to \<open>270\<close> are accepted, and the code chosen turns the
  frame clockwise by the configured angle, modulo a full turn.
\<close>

lemma rotation_in_table:
  assumes "- 4 \<le> k" "k \<le> 3"
  shows "\<exists>c. rotation_setting (of_int (90 * k)) = Inr c \<and> clockwise_degrees c = (90 * k) mod 360"
proof -
  from assms have "k \<in> {- 4, - 3, - 2, - 1, 0, 1, 2, 3}"
    by auto
  then show ?thesis
    unfolding rotation_setting_multiple
    by (auto simp: py_list_item_def possible_rot_def)
qed

text \<open>Every other multiple of 90 indexes \<^verbatim>\<open>possible_rot\<close> out of range.\<close>

lemma rotation_off_table:
  "k < - 4 \<or> 3 < k \<Longrightarrow> rotation_setting (of_int (90 * k)) = Inl IndexError"
  unfolding rotation_setting_multiple
  by (auto simp: py_list_item_def possible_rot_def)

lemma captureImage_stores_rotated:
  assumes "isOpened (VideoCapture camera)" "read_frame (VideoCapture camera) = Some frame"
  shows "cr_written (captureImage VideoCapture now camera fp folder rotation) =
         Some (folder @ ''/'' @ fp @ ''_'' @ now @ ''.jpg'',
               case rotation of None \<Rightarrow> frame | Some r \<Rightarrow> cv2_rotate frame r)"
  using assms by (simp add: captureImage_def release_and_return_def Let_def)

lemma cv2_rotate_example:
  "cv2_rotate [[1, 2, 3], [4, 5, 6]] ROTATE_90_CLOCKWISE = [[4, 1], [5, 2], [6, 3]] \<and>
   cv2_rotate [[1, 2, 3], [4, 5, 6]] ROTATE_180 = [[6, 5, 4], [3, 2, 1]] \<and>
   cv2_rotate [[1, 2, 3], [4, 5, 6]] ROTATE_90_COUNTERCLOCKWISE = [[3, 6], [2, 5], [1, 4]]"
  by code_simp

lemma main_startup_error_before_loop:
  "main_cli w a = Inl e \<Longrightarrow> main w a d first envs = (Crashed e, d, [])"
  by (simp add: main_def)

text \<open>
  C8. The claim is that every multiple of 90 is accepted at startup. A rotation of 360,
  a multiple of 90, is not: on the command line and in the configuration file the index 4
  is out of the range of \<^verbatim>\<open>possible_rot\<close>, the IndexError is not caught, and the process
  ends before the first status query.
\<close>

theorem full_turn_rejected:
  "cli_rotation (Some 360) = Inl IndexError \<and>
   json_rotation (JObj [(''rotate'', JNum 360)]) = Inl IndexError \<and>
   main w0 (a0\<lparr>arg_rotate := Some 360\<rparr>) [] (Inr (status_body ''IDLE'')) []
     = (Crashed IndexError, [], [])"
  by code_simp

end
